theory Spec2Isabelle
  imports Complex_Main "HOL-Library.Sublist"
begin

section \<open>The prediction dashboard: model health and system health displays\<close>

text \<open>
  The development embeds the decision logic of \<^verbatim>\<open>main\<close> in \<^verbatim>\<open>src/prediction_ui.py\<close>:
  the "Model Health Risk" block (lines 216-298) and the "Current System Health" part of the
  "Model Comparison" block (lines 341-408).

  The source is a script that calls the display library and the HTTP library. Its
  inputs are the parsed JSON payloads and the outcome of the HTTP request; its output is
  the sequence of display calls it makes, together with the exception that leaves the
  block, if any. Conventions of the embedding:
  \<^item> a payload is a value of type \<open>json\<close>; a Python dict is the list of its items (keys
    distinct, as in a parsed JSON object), looked up with \<open>map_of\<close>;
  \<^item> a JSON number is a Python int (\<open>JInt\<close>) or a float (\<open>JFloat\<close>, the real number the
    double denotes); the literals \<open>0.75\<close>, \<open>0.5\<close> and \<open>1.0\<close> are exact doubles, \<open>0.3\<close> and
    \<open>0.7\<close> are not and are read as the doubles Python compares against. Not-a-number and
    the infinities are not represented;
  \<^item> a display call is an \<open>event\<close>, recorded when the call is made. Two calls of the
    display library reject some arguments and are embedded with that check: the progress
    bar and the metric value. Layout columns and \<^verbatim>\<open>help\<close> texts are left out, and the
    pictographs at the start of the messages are dropped;
  \<^item> \<^verbatim>\<open>f"{x:.1%}"\<close> is kept as the pair of the number of digits and the value, not as text.
\<close>

subsection \<open>Payloads and the Python operations used on them\<close>

datatype json =
  JNull
| JBool bool
| JInt int
| JFloat real
| JStr string
| JArr "json list"
| JObj "(string \<times> json) list"

datatype exn =
  KeyError
| TypeError
| ValueError
| AttributeError
| OverflowError
| JSONDecodeError
| RequestException
| StreamlitAPIException

definition ex_bind :: "exn + 'a \<Rightarrow> ('a \<Rightarrow> exn + 'b) \<Rightarrow> exn + 'b" where
  "ex_bind r f = (case r of Inl e \<Rightarrow> Inl e | Inr x \<Rightarrow> f x)"

text \<open>\<^verbatim>\<open>key in container\<close>: key membership for a dict, element membership for a list, substring
  test for a string, \<^verbatim>\<open>TypeError\<close> for anything else.\<close>

fun py_in :: "string \<Rightarrow> json \<Rightarrow> exn + bool" where
  "py_in k (JObj kvs) = Inr (k \<in> set (map fst kvs))"
| "py_in k (JArr xs) = Inr (JStr k \<in> set xs)"
| "py_in k (JStr s) = Inr (sublist k s)"
| "py_in k JNull = Inl TypeError"
| "py_in k (JBool b) = Inl TypeError"
| "py_in k (JInt n) = Inl TypeError"
| "py_in k (JFloat r) = Inl TypeError"

text \<open>\<^verbatim>\<open>d.get(key, default)\<close>: only a dict has the method.\<close>

definition dict_get :: "(string \<times> json) list \<Rightarrow> string \<Rightarrow> json \<Rightarrow> json" where
  "dict_get kvs k d = (case map_of kvs k of Some v \<Rightarrow> v | None \<Rightarrow> d)"

fun py_get :: "json \<Rightarrow> string \<Rightarrow> json \<Rightarrow> exn + json" where
  "py_get (JObj kvs) k d = Inr (dict_get kvs k d)"
| "py_get JNull k d = Inl AttributeError"
| "py_get (JBool b) k d = Inl AttributeError"
| "py_get (JInt n) k d = Inl AttributeError"
| "py_get (JFloat r) k d = Inl AttributeError"
| "py_get (JStr s) k d = Inl AttributeError"
| "py_get (JArr xs) k d = Inl AttributeError"

text \<open>\<^verbatim>\<open>d[key]\<close> with a string key.\<close>

fun py_getitem :: "json \<Rightarrow> string \<Rightarrow> exn + json" where
  "py_getitem (JObj kvs) k = (case map_of kvs k of Some v \<Rightarrow> Inr v | None \<Rightarrow> Inl KeyError)"
| "py_getitem JNull k = Inl TypeError"
| "py_getitem (JBool b) k = Inl TypeError"
| "py_getitem (JInt n) k = Inl TypeError"
| "py_getitem (JFloat r) k = Inl TypeError"
| "py_getitem (JStr s) k = Inl TypeError"
| "py_getitem (JArr xs) k = Inl TypeError"

text \<open>The number a value denotes, if it is one (\<^verbatim>\<open>True\<close> is 1 and \<^verbatim>\<open>False\<close> is 0).\<close>

fun py_number :: "json \<Rightarrow> real option" where
  "py_number (JInt n) = Some (of_int n)"
| "py_number (JFloat r) = Some r"
| "py_number (JBool b) = Some (if b then 1 else 0)"
| "py_number JNull = None"
| "py_number (JStr s) = None"
| "py_number (JArr xs) = None"
| "py_number (JObj kvs) = None"

text \<open>Ordering comparisons and \<^verbatim>\<open>min\<close> against a float raise \<^verbatim>\<open>TypeError\<close> on a value
  that is not a number.\<close>

definition py_num :: "json \<Rightarrow> exn + real" where
  "py_num x = (case py_number x of Some r \<Rightarrow> Inr r | None \<Rightarrow> Inl TypeError)"

definition py_gt :: "json \<Rightarrow> real \<Rightarrow> exn + bool" where
  "py_gt x c = ex_bind (py_num x) (\<lambda>r. Inr (r > c))"

definition py_lt :: "json \<Rightarrow> real \<Rightarrow> exn + bool" where
  "py_lt x c = ex_bind (py_num x) (\<lambda>r. Inr (r < c))"

text \<open>\<^verbatim>\<open>min(a, x)\<close> keeps its first argument unless the second is strictly smaller.\<close>

definition py_min :: "real \<Rightarrow> json \<Rightarrow> exn + json" where
  "py_min a x = ex_bind (py_num x) (\<lambda>r. Inr (if r < a then x else JFloat a))"

text \<open>The format specification \<^verbatim>\<open>.N%\<close> accepts numbers only: \<^verbatim>\<open>None\<close>, lists and dicts
  raise \<^verbatim>\<open>TypeError\<close>, a string raises \<^verbatim>\<open>ValueError\<close>. An int is converted to a float
  first, which raises \<^verbatim>\<open>OverflowError\<close> from \<open>2^1024 - 2^970\<close> on (the first integer that
  rounds past the largest double).\<close>

definition fits_double :: "int \<Rightarrow> bool" where
  "fits_double n = (\<bar>n\<bar> < 2 ^ 1024 - 2 ^ 970)"

fun py_format_pct :: "json \<Rightarrow> exn + real" where
  "py_format_pct (JFloat r) = Inr r"
| "py_format_pct (JInt n) = (if fits_double n then Inr (of_int n) else Inl OverflowError)"
| "py_format_pct (JBool b) = Inr (if b then 1 else 0)"
| "py_format_pct JNull = Inl TypeError"
| "py_format_pct (JStr s) = Inl ValueError"
| "py_format_pct (JArr xs) = Inl TypeError"
| "py_format_pct (JObj kvs) = Inl TypeError"

text \<open>\<^verbatim>\<open>a if x > t1 else b if x > t2 else c\<close>, and the same chain as \<^verbatim>\<open>if/elif/else\<close>.\<close>

definition py_if_gt2 :: "json \<Rightarrow> real \<Rightarrow> 'a \<Rightarrow> real \<Rightarrow> 'a \<Rightarrow> 'a \<Rightarrow> exn + 'a" where
  "py_if_gt2 x t1 a t2 b c =
     ex_bind (py_gt x t1) (\<lambda>hi.
       if hi then Inr a
       else ex_bind (py_gt x t2) (\<lambda>mid. if mid then Inr b else Inr c))"

definition py_if_lt2 :: "json \<Rightarrow> real \<Rightarrow> 'a \<Rightarrow> real \<Rightarrow> 'a \<Rightarrow> 'a \<Rightarrow> exn + 'a" where
  "py_if_lt2 x t1 a t2 b c =
     ex_bind (py_lt x t1) (\<lambda>lo.
       if lo then Inr a
       else ex_bind (py_lt x t2) (\<lambda>mid. if mid then Inr b else Inr c))"

subsection \<open>Display calls\<close>

text \<open>\<open>SUCCESS\<close>, \<open>WARNING\<close> and \<open>ERROR\<close> are the green, yellow and red boxes
  (\<^verbatim>\<open>st.success\<close>, \<^verbatim>\<open>st.warning\<close>, \<^verbatim>\<open>st.error\<close>).\<close>

datatype severity = SUCCESS | WARNING | ERROR

datatype shown =
  Text string
| Percent nat real
| Val json

datatype event =
  Status severity string
| Degradation severity real
| Progress real
| Metric string shown
| Markdown string
| Caption string

text \<open>A block yields the display calls made so far and either an exception or a value.\<close>

type_synonym 'a ui = "event list \<times> (exn + 'a)"

definition ui_return :: "'a \<Rightarrow> 'a ui" where
  "ui_return x = ([], Inr x)"

definition ui_emit :: "event \<Rightarrow> unit ui" where
  "ui_emit e = ([e], Inr ())"

definition ui_eval :: "exn + 'a \<Rightarrow> 'a ui" where
  "ui_eval r = ([], r)"

definition ui_bind :: "'a ui \<Rightarrow> ('a \<Rightarrow> 'b ui) \<Rightarrow> 'b ui" where
  "ui_bind m f =
     (case m of
        (evs, Inl e) \<Rightarrow> (evs, Inl e)
      | (evs, Inr x) \<Rightarrow> (case f x of (evs', r) \<Rightarrow> (evs @ evs', r)))"

fun ui_seq :: "unit ui list \<Rightarrow> unit ui" where
  "ui_seq [] = ui_return ()"
| "ui_seq (m # ms) = ui_bind m (\<lambda>_. ui_seq ms)"

text \<open>\<^verbatim>\<open>try: body  except: handler\<close>. Both handlers of the source (the bare \<^verbatim>\<open>except:\<close> and
  \<^verbatim>\<open>except Exception\<close>) catch every exception of the model.\<close>

definition ui_try :: "unit ui \<Rightarrow> unit ui \<Rightarrow> unit ui" where
  "ui_try body handler =
     (case body of
        (evs, Inl e) \<Rightarrow> (case handler of (evs', r) \<Rightarrow> (evs @ evs', r))
      | (evs, Inr u) \<Rightarrow> (evs, Inr u))"

text \<open>\<^verbatim>\<open>st.progress(value)\<close>: a float must lie in \<open>[0.0, 1.0]\<close>, an int in \<open>[0, 100]\<close>; any
  other number raises \<^verbatim>\<open>StreamlitAPIException\<close>, a bool raises \<^verbatim>\<open>TypeError\<close>. The call is
  recorded with the number it was given, also when it raises.\<close>

fun st_progress :: "json \<Rightarrow> unit ui" where
  "st_progress (JFloat r) =
     ([Progress r], if 0 \<le> r \<and> r \<le> 1 then Inr () else Inl StreamlitAPIException)"
| "st_progress (JInt n) =
     ([Progress (of_int n)], if 0 \<le> n \<and> n \<le> 100 then Inr () else Inl StreamlitAPIException)"
| "st_progress (JBool b) = ([Progress (if b then 1 else 0)], Inl TypeError)"
| "st_progress JNull = ([], Inl StreamlitAPIException)"
| "st_progress (JStr s) = ([], Inl StreamlitAPIException)"
| "st_progress (JArr xs) = ([], Inl StreamlitAPIException)"
| "st_progress (JObj kvs) = ([], Inl StreamlitAPIException)"

text \<open>\<^verbatim>\<open>st.metric(label, value)\<close> with a payload value: a list or a dict raises
  \<^verbatim>\<open>TypeError\<close>.\<close>

fun st_metric :: "string \<Rightarrow> json \<Rightarrow> unit ui" where
  "st_metric label (JArr xs) = ([Metric label (Val (JArr xs))], Inl TypeError)"
| "st_metric label (JObj kvs) = ([Metric label (Val (JObj kvs))], Inl TypeError)"
| "st_metric label JNull = ([Metric label (Val JNull)], Inr ())"
| "st_metric label (JBool b) = ([Metric label (Val (JBool b))], Inr ())"
| "st_metric label (JInt n) = ([Metric label (Val (JInt n))], Inr ())"
| "st_metric label (JFloat r) = ([Metric label (Val (JFloat r))], Inr ())"
| "st_metric label (JStr s) = ([Metric label (Val (JStr s))], Inr ())"

definition percent_metric :: "string \<Rightarrow> nat \<Rightarrow> exn + json \<Rightarrow> unit ui" where
  "percent_metric label digits x =
     ui_bind (ui_eval (ex_bind x py_format_pct)) (\<lambda>v. ui_emit (Metric label (Percent digits v)))"

subsection \<open>The HTTP response\<close>

datatype response = Response (status_code: int) (body: "json option")

text \<open>\<^verbatim>\<open>response.json()\<close> raises when the body is not JSON (\<open>body = None\<close>).\<close>

definition response_json :: "response \<Rightarrow> exn + json" where
  "response_json r = (case body r of None \<Rightarrow> Inl JSONDecodeError | Some j \<Rightarrow> Inr j)"

subsection \<open>Model Health Risk (lines 216-298)\<close>

text \<open>Lines 222-258: the branch taken when \<^verbatim>\<open>"error" not in risk_data\<close>.\<close>

definition degradation_line :: "severity \<Rightarrow> json \<Rightarrow> unit ui" where
  "degradation_line sev overall_deg =
     ui_bind (ui_eval (py_format_pct overall_deg)) (\<lambda>d. ui_emit (Degradation sev d))"

text \<open>Line 237: \<^verbatim>\<open>min(1.0, overall_deg if overall_deg > 0 else result["confidence"])\<close>.\<close>

definition progress_arg :: "json \<Rightarrow> json \<Rightarrow> exn + json" where
  "progress_arg overall_deg result =
     ex_bind (py_gt overall_deg 0) (\<lambda>positive.
     ex_bind (if positive then Inr overall_deg else py_getitem result ''confidence'')
       (py_min 1.0))"

definition telemetry_branch :: "json \<Rightarrow> json \<Rightarrow> unit ui" where
  "telemetry_branch result risk_data =
     ui_bind (ui_eval (py_get risk_data ''risk'' (JStr ''UNKNOWN''))) (\<lambda>risk_level.
     ui_bind (ui_eval (py_get risk_data ''degradation'' (JObj []))) (\<lambda>degradation.
     ui_bind (ui_eval (py_get degradation ''overall_degradation'' (JInt 0))) (\<lambda>overall_deg.
     ui_seq [
       (if risk_level = JStr ''HIGH'' then
          ui_seq [ui_emit (Status ERROR ''**Model Likely to Collapse**''),
                  degradation_line ERROR overall_deg]
        else if risk_level = JStr ''MEDIUM'' then
          ui_seq [ui_emit (Status WARNING ''**Model Degrading**''),
                  degradation_line WARNING overall_deg]
        else
          ui_seq [ui_emit (Status SUCCESS ''**Model Healthy**''),
                  degradation_line SUCCESS overall_deg]),
       ui_bind (ui_eval (progress_arg overall_deg result)) st_progress,
       percent_metric ''Confidence Drop'' 2 (py_get degradation ''confidence_drop'' (JInt 0)),
       percent_metric ''PSI Increase'' 2 (py_get degradation ''psi_increase'' (JInt 0)),
       st_metric ''Risk Level'' risk_level])))"

text \<open>Lines 261-278: the \<^verbatim>\<open>else\<close> branch, "Fallback to confidence-based".\<close>

definition fallback_error_branch :: "json \<Rightarrow> unit ui" where
  "fallback_error_branch result =
     ui_bind (ui_eval (py_getitem result ''confidence'')) (\<lambda>confidence.
     ui_seq [
       ui_bind (ui_eval (py_if_gt2 confidence 0.75
                  (Status SUCCESS ''**Model Healthy** - High confidence prediction'')
                  0.5
                  (Status WARNING ''**Model Risky** - Medium confidence, monitor closely'')
                  (Status ERROR ''**Model Likely to Collapse** - Very low confidence!'')))
         ui_emit,
       st_progress confidence,
       percent_metric ''Confidence Score'' 2 (Inr confidence),
       ui_bind (ui_eval (py_if_gt2 confidence 0.75 ''Healthy'' 0.5 ''Risky'' ''Critical''))
         (\<lambda>health_status. ui_emit (Metric ''Health Status'' (Text health_status))),
       ui_bind (ui_eval (py_if_gt2 confidence 0.75 ''Low'' 0.5 ''Medium'' ''High''))
         (\<lambda>risk_level. ui_emit (Metric ''Risk Level'' (Text risk_level)))])"

text \<open>Lines 281-298: the handler of the bare \<^verbatim>\<open>except:\<close>, "Fallback if API fails".\<close>

definition fallback_except_branch :: "json \<Rightarrow> unit ui" where
  "fallback_except_branch result =
     ui_bind (ui_eval (py_getitem result ''confidence'')) (\<lambda>confidence.
     ui_seq [
       ui_bind (ui_eval (py_if_gt2 confidence 0.75
                  (Status SUCCESS ''**Model Healthy** - High confidence prediction'')
                  0.5
                  (Status WARNING ''**Model Risky** - Medium confidence, monitor closely'')
                  (Status ERROR ''**Model Likely to Collapse** - Very low confidence!'')))
         ui_emit,
       st_progress confidence,
       percent_metric ''Confidence Score'' 2 (Inr confidence),
       ui_bind (ui_eval (py_if_gt2 confidence 0.75 ''Healthy'' 0.5 ''Risky'' ''Critical''))
         (\<lambda>health_status. ui_emit (Metric ''Health Status'' (Text health_status))),
       ui_bind (ui_eval (py_if_gt2 confidence 0.75 ''Low'' 0.5 ''Medium'' ''High''))
         (\<lambda>risk_level. ui_emit (Metric ''Risk Level'' (Text risk_level)))])"

text \<open>Lines 216-298. \<open>got\<close> is the outcome of \<^verbatim>\<open>requests.get\<close>: the exception it raised or
  the response. A response whose status is not 200 displays nothing: the \<^verbatim>\<open>if\<close> of line
  218 has no \<^verbatim>\<open>else\<close>.\<close>

definition model_health_risk :: "json \<Rightarrow> exn + response \<Rightarrow> unit ui" where
  "model_health_risk result got =
     ui_try
       (ui_bind (ui_eval got) (\<lambda>risk_response.
          if status_code risk_response = 200 then
            ui_bind (ui_eval (response_json risk_response)) (\<lambda>risk_data.
            ui_bind (ui_eval (py_in ''error'' risk_data)) (\<lambda>has_error.
              if \<not> has_error then telemetry_branch result risk_data
              else fallback_error_branch result))
          else ui_return ()))
       (fallback_except_branch result)"

subsection \<open>Model Comparison and Current System Health (lines 341-408)\<close>

text \<open>Lines 367-383. The doubles that the literals \<^verbatim>\<open>0.3\<close> and \<^verbatim>\<open>0.7\<close> denote: both lie
  slightly below the decimal fraction.\<close>

definition double_0_3 :: real where
  "double_0_3 = 5404319552844595 / 2 ^ 54"

definition double_0_7 :: real where
  "double_0_7 = 3152519739159347 / 2 ^ 52"

definition system_health :: "json \<Rightarrow> unit ui" where
  "system_health failure_data =
     ui_seq [
       ui_emit (Markdown ''**Current System Health**''),
       ui_bind (ui_eval (ex_bind (py_get failure_data ''metrics'' (JObj []))
                          (\<lambda>metrics. py_get metrics ''avg_confidence'' (JInt 0))))
         (\<lambda>avg_confidence.
       ui_bind (ui_eval (py_get failure_data ''failure_probability'' (JInt 0)))
         (\<lambda>failure_prob.
       ui_seq [
         percent_metric ''Avg Confidence'' 2 (Inr avg_confidence),
         percent_metric ''Failure Risk'' 2 (Inr failure_prob),
         ui_bind (ui_eval (py_if_lt2 failure_prob double_0_3
                    (Status SUCCESS ''System Healthy'')
                    double_0_7
                    (Status WARNING ''System at Risk'')
                    (Status ERROR ''System Critical'')))
           ui_emit]))]"

definition model_comparison :: "exn + response \<Rightarrow> unit ui" where
  "model_comparison got =
     ui_try
       (ui_bind (ui_eval got) (\<lambda>failure_risk_response.
          if status_code failure_risk_response = 200 then
            ui_bind (ui_eval (response_json failure_risk_response)) (\<lambda>failure_data.
            ui_seq [
              ui_emit (Markdown ''**Good Model**''),
              ui_emit (Metric ''Expected Confidence'' (Text ''High (>75%)'')),
              ui_emit (Caption ''Stable performance''),
              ui_emit (Markdown ''**Bad Model**''),
              ui_emit (Metric ''Expected Confidence'' (Text ''Low (<60%)'')),
              ui_emit (Caption ''May degrade faster''),
              system_health failure_data])
          else
            ui_seq [
              ui_emit (Markdown ''**Good Model**''),
              ui_emit (Metric ''Confidence'' (Text ''High'')),
              ui_emit (Caption ''Stable''),
              ui_emit (Markdown ''**Bad Model**''),
              ui_emit (Metric ''Confidence'' (Text ''Low'')),
              ui_emit (Caption ''Risky'')]))
       (ui_seq [
          ui_emit (Markdown ''**Good Model**''),
          ui_emit (Metric ''Confidence'' (Text ''High'')),
          ui_emit (Markdown ''**Bad Model**''),
          ui_emit (Metric ''Confidence'' (Text ''Low''))])"

subsection \<open>Reading a verdict off the display\<close>

text \<open>The risk level a box shows is its colour: green is healthy, yellow is risky (for the
  system: at risk), red is critical.\<close>

datatype level = HEALTHY | RISKY | CRITICAL

datatype system_level = SYSTEM_HEALTHY | AT_RISK | SYSTEM_CRITICAL

fun level_of :: "severity \<Rightarrow> level" where
  "level_of SUCCESS = HEALTHY"
| "level_of WARNING = RISKY"
| "level_of ERROR = CRITICAL"

fun system_level_of :: "severity \<Rightarrow> system_level" where
  "system_level_of SUCCESS = SYSTEM_HEALTHY"
| "system_level_of WARNING = AT_RISK"
| "system_level_of ERROR = SYSTEM_CRITICAL"

fun statuses :: "event list \<Rightarrow> severity list" where
  "statuses [] = []"
| "statuses (Status s m # es) = s # statuses es"
| "statuses (Degradation s d # es) = statuses es"
| "statuses (Progress p # es) = statuses es"
| "statuses (Metric l v # es) = statuses es"
| "statuses (Markdown m # es) = statuses es"
| "statuses (Caption m # es) = statuses es"

definition risk_levels :: "unit ui \<Rightarrow> level list" where
  "risk_levels run = map level_of (statuses (fst run))"

definition system_levels :: "unit ui \<Rightarrow> system_level list" where
  "system_levels run = map system_level_of (statuses (fst run))"

fun progress_values :: "event list \<Rightarrow> real list" where
  "progress_values [] = []"
| "progress_values (Progress p # es) = p # progress_values es"
| "progress_values (Status s m # es) = progress_values es"
| "progress_values (Degradation s d # es) = progress_values es"
| "progress_values (Metric l v # es) = progress_values es"
| "progress_values (Markdown m # es) = progress_values es"
| "progress_values (Caption m # es) = progress_values es"

fun metrics :: "event list \<Rightarrow> (string \<times> shown) list" where
  "metrics [] = []"
| "metrics (Metric l v # es) = (l, v) # metrics es"
| "metrics (Status s m # es) = metrics es"
| "metrics (Degradation s d # es) = metrics es"
| "metrics (Progress p # es) = metrics es"
| "metrics (Markdown m # es) = metrics es"
| "metrics (Caption m # es) = metrics es"


text \<open>No exception leaves the block.\<close>

definition completes :: "unit ui \<Rightarrow> bool" where
  "completes run = (snd run = Inr ())"

text \<open>The prediction payload carries the number \<open>c\<close> under \<^verbatim>\<open>"confidence"\<close>. Line 192 has
  formatted \<^verbatim>\<open>result['confidence']\<close> with \<^verbatim>\<open>.2%\<close> before the block is reached, so the
  payloads that reach it are of this kind.\<close>

definition has_confidence :: "json \<Rightarrow> real \<Rightarrow> bool" where
  "has_confidence result c =
     (case py_getitem result ''confidence'' of
        Inl e \<Rightarrow> False
      | Inr j \<Rightarrow> py_format_pct j = Inr c)"

text \<open>The confidence of the data model: a number in \<open>[0, 1]\<close>, as a float or as one of the
  ints 0 and 1.\<close>

definition valid_confidence :: "json \<Rightarrow> real \<Rightarrow> bool" where
  "valid_confidence result c =
     (case py_getitem result ''confidence'' of
        Inr (JFloat r) \<Rightarrow> r = c \<and> 0 \<le> c \<and> c \<le> 1
      | Inr (JInt n) \<Rightarrow> of_int n = c \<and> 0 \<le> n \<and> n \<le> 1
      | _ \<Rightarrow> False)"

text \<open>The outcomes of the request that the block distinguishes. \<open>ok_body\<close>: status 200 and
  a body that decodes to the given payload. \<open>call_failed\<close>: the request raised (connection
  error, timeout) or the body of a 200 response did not decode; these are the cases that
  reach the bare \<^verbatim>\<open>except:\<close> before anything is displayed. \<open>error_marked\<close>: status 200
  and a decoded body for which \<^verbatim>\<open>"error" in risk_data\<close> holds. A reply with any other
  status belongs to neither: line 218 has no \<^verbatim>\<open>else\<close> and nothing is displayed for it.\<close>

definition ok_body :: "json \<Rightarrow> exn + response" where
  "ok_body risk_data = Inr (Response 200 (Some risk_data))"



text \<open>A report whose fields, where present, have the types of the data model: the
  degradation is an object, its three figures are numbers that the percent format accepts,
  and the risk is not a list or an object.\<close>

definition is_number :: "json \<Rightarrow> bool" where
  "is_number x = (case py_format_pct x of Inr r \<Rightarrow> True | Inl e \<Rightarrow> False)"

definition scalar :: "json \<Rightarrow> bool" where
  "scalar x = (case x of JArr xs \<Rightarrow> False | JObj kvs \<Rightarrow> False | _ \<Rightarrow> True)"



section \<open>Auxiliary facts\<close>

subsection \<open>Running the display combinators\<close>

lemma ui_bind_eval_Inr: "ui_bind (ui_eval (Inr x)) f = f x"
  by (simp add: ui_bind_def ui_eval_def split: prod.splits)

lemma ui_bind_eval_Inl: "ui_bind (ui_eval (Inl e)) f = ([], Inl e)"
  by (simp add: ui_bind_def ui_eval_def)

lemma ui_bind_emit: "ui_bind (ui_emit e) f = (e # fst (f ()), snd (f ()))"
  by (simp add: ui_bind_def ui_emit_def split: prod.splits)

lemma ui_bind_return: "ui_bind (ui_return x) f = f x"
  by (simp add: ui_bind_def ui_return_def split: prod.splits)

lemma ui_bind_pair_Inl: "ui_bind (evs, Inl e) f = (evs, Inl e)"
  by (simp add: ui_bind_def)

lemma ui_bind_pair_Inr: "ui_bind (evs, Inr x) f = (evs @ fst (f x), snd (f x))"
  by (simp add: ui_bind_def split: prod.splits)

lemma ui_try_raised: "ui_try (evs, Inl e) handler = (evs @ fst handler, snd handler)"
  by (simp add: ui_try_def split: prod.splits)

lemma ui_try_done: "ui_try (evs, Inr u) handler = (evs, Inr u)"
  by (simp add: ui_try_def)

lemmas ui_simps = ui_bind_eval_Inr ui_bind_eval_Inl ui_bind_emit ui_bind_return
  ui_bind_pair_Inl ui_bind_pair_Inr ui_try_raised ui_try_done


lemma has_confidenceD:
  "has_confidence result c \<Longrightarrow>
   \<exists>j. py_getitem result ''confidence'' = Inr j \<and> py_format_pct j = Inr c"
  by (simp add: has_confidence_def split: sum.splits)

lemma py_format_pct_number: "py_format_pct j = Inr c \<Longrightarrow> py_number j = Some c"
  by (cases j) (auto split: if_splits)

lemma valid_confidenceD:
  assumes "valid_confidence result c"
  shows "\<exists>j. py_getitem result ''confidence'' = Inr j \<and> py_format_pct j = Inr c \<and>
             st_progress j = ([Progress c], Inr ()) \<and> 0 \<le> c \<and> c \<le> 1"
proof (cases "py_getitem result ''confidence''")
  case (Inl e)
  with assms show ?thesis by (simp add: valid_confidence_def)
next
  case (Inr j)
  with assms show ?thesis
    by (cases j) (auto simp: valid_confidence_def fits_double_def)
qed

lemma st_progress_number:
  "py_format_pct j = Inr c \<Longrightarrow> \<exists>r. st_progress j = ([Progress c], r)"
  by (cases j) (auto split: if_splits)

lemma py_if_gt2_number:
  "py_number j = Some c \<Longrightarrow>
   py_if_gt2 j t1 a t2 b d = Inr (if c > t1 then a else if c > t2 then b else d)"
  by (simp add: py_if_gt2_def py_gt_def py_num_def ex_bind_def)

lemma py_if_lt2_number:
  "py_number j = Some c \<Longrightarrow>
   py_if_lt2 j t1 a t2 b d = Inr (if c < t1 then a else if c < t2 then b else d)"
  by (simp add: py_if_lt2_def py_lt_def py_num_def ex_bind_def)

lemma percent_metric_number:
  "py_format_pct j = Inr c \<Longrightarrow>
   percent_metric label n (Inr j) = ([Metric label (Percent n c)], Inr ())"
  by (simp add: percent_metric_def ex_bind_def ui_bind_eval_Inr ui_emit_def)

lemma statuses_append: "statuses (xs @ ys) = statuses xs @ statuses ys"
  by (induction xs rule: statuses.induct) simp_all

lemma progress_values_append:
  "progress_values (xs @ ys) = progress_values xs @ progress_values ys"
  by (induction xs rule: progress_values.induct) simp_all

subsection \<open>The two confidence fallbacks\<close>

lemma fallback_error_eq_except: "fallback_error_branch result = fallback_except_branch result"
  by (simp add: fallback_error_branch_def fallback_except_branch_def)

lemma fallback_except_branch_run:
  assumes "valid_confidence result c"
  shows "fallback_except_branch result =
    ([if c > 0.75 then Status SUCCESS ''**Model Healthy** - High confidence prediction''
      else if c > 0.5 then Status WARNING ''**Model Risky** - Medium confidence, monitor closely''
      else Status ERROR ''**Model Likely to Collapse** - Very low confidence!'',
      Progress c,
      Metric ''Confidence Score'' (Percent 2 c),
      Metric ''Health Status''
        (Text (if c > 0.75 then ''Healthy'' else if c > 0.5 then ''Risky'' else ''Critical'')),
      Metric ''Risk Level''
        (Text (if c > 0.75 then ''Low'' else if c > 0.5 then ''Medium'' else ''High''))],
     Inr ())"
proof -
  from assms obtain j where j: "py_getitem result ''confidence'' = Inr j"
    "py_format_pct j = Inr c" "st_progress j = ([Progress c], Inr ())"
    using valid_confidenceD by blast
  note n = py_format_pct_number [OF j(2)]
  show ?thesis
    unfolding fallback_except_branch_def
    by (simp add: j n ui_simps py_if_gt2_number percent_metric_number ui_emit_def ui_return_def)
qed

lemmas fallback_error_branch_run =
  fallback_except_branch_run [folded fallback_error_eq_except]

text \<open>For any confidence that is a number, in range or not, a fallback shows the box of
  the thresholds first and then calls the progress bar with the confidence; no other box
  or progress call follows.\<close>

lemma fallback_except_branch_calls:
  assumes "has_confidence result c"
  shows "statuses (fst (fallback_except_branch result)) =
           [if c > 0.75 then SUCCESS else if c > 0.5 then WARNING else ERROR] \<and>
         progress_values (fst (fallback_except_branch result)) = [c]"
proof -
  from assms obtain j where j: "py_getitem result ''confidence'' = Inr j"
    "py_format_pct j = Inr c"
    using has_confidenceD by blast
  note n = py_format_pct_number [OF j(2)]
  from st_progress_number [OF j(2)] obtain r where r: "st_progress j = ([Progress c], r)" ..
  show ?thesis
    unfolding fallback_except_branch_def
    by (cases r)
       (simp_all add: j n r ui_simps py_if_gt2_number percent_metric_number ui_emit_def
         ui_return_def)
qed

lemmas fallback_error_branch_calls =
  fallback_except_branch_calls [folded fallback_error_eq_except]

subsection \<open>Which branch runs\<close>



lemma health_error_marked:
  "py_in ''error'' risk_data = Inr True \<Longrightarrow>
   model_health_risk result (ok_body risk_data) =
     ui_try (fallback_error_branch result) (fallback_except_branch result)"
  by (simp add: model_health_risk_def ok_body_def response_json_def ui_simps)




lemma py_in_dict_Some: "map_of kvs k = Some v \<Longrightarrow> py_in k (JObj kvs) = Inr True"
  by (auto simp: rev_image_eqI dest: map_of_SomeD)



subsection \<open>The telemetry branch\<close>

lemma is_numberD: "is_number x \<Longrightarrow> \<exists>r. py_format_pct x = Inr r"
  by (simp add: is_number_def split: sum.splits)

lemma st_metric_scalar: "scalar v \<Longrightarrow> st_metric label v = ([Metric label (Val v)], Inr ())"
  by (cases v) (simp_all add: scalar_def)







lemma progress_arg_le_1:
  assumes "progress_arg x result = Inr j"
  shows "\<forall>p \<in> set (progress_values (fst (st_progress j))). p \<le> 1"
proof -
  from assms obtain y r where "py_number y = Some r" "j = (if r < 1 then y else JFloat 1)"
    by (auto simp: progress_arg_def py_gt_def py_min_def py_num_def ex_bind_def
        split: sum.splits option.splits if_splits)
  then show ?thesis by (cases y) (auto split: if_splits)
qed

lemma telemetry_branch_progress_le_1:
  "\<forall>p \<in> set (progress_values (fst (telemetry_branch result risk_data))). p \<le> 1"
proof -
  have st: "progress_values (fst (st_metric l v)) = []" for l v by (cases v) simp_all
  have pr: "\<forall>p \<in> set (progress_values (fst (ui_bind (ui_eval (progress_arg x result)) st_progress))). p \<le> 1" for x
    using progress_arg_le_1 [of x result]
    by (cases "progress_arg x result") (simp_all add: ui_bind_eval_Inl ui_bind_eval_Inr)
  have bind: "progress_values (fst (ui_bind m f)) =
      progress_values (fst m) @ (case snd m of Inl e \<Rightarrow> [] | Inr u \<Rightarrow> progress_values (fst (f u)))"
    for m :: "'a ui" and f :: "'a \<Rightarrow> 'b ui"
    by (cases m; cases "snd m") (auto simp: ui_bind_def progress_values_append split: prod.splits)
  have pm: "progress_values (fst (percent_metric l n x)) = []" for l n x
    by (cases "ex_bind x py_format_pct")
       (simp_all add: percent_metric_def ui_bind_eval_Inl ui_bind_eval_Inr ui_emit_def)
  have dl: "progress_values (fst (degradation_line s v)) = []" for s v
    by (cases "py_format_pct v")
       (simp_all add: degradation_line_def ui_bind_eval_Inl ui_bind_eval_Inr ui_emit_def)
  show ?thesis
    unfolding telemetry_branch_def
    using pr
    by (auto simp: bind st pm dl ui_eval_def ui_emit_def ui_return_def
        split: sum.splits if_splits)
qed




subsection \<open>A verdict is always shown\<close>





subsection \<open>Dependence on the prediction payload\<close>


subsection \<open>Current System Health\<close>

lemma system_health_run:
  assumes m: "dict_get kvs ''metrics'' (JObj []) = JObj m"
    and a: "py_format_pct (dict_get m ''avg_confidence'' (JInt 0)) = Inr a"
    and p: "py_format_pct (dict_get kvs ''failure_probability'' (JInt 0)) = Inr p"
  shows "system_health (JObj kvs) =
    ([Markdown ''**Current System Health**'',
      Metric ''Avg Confidence'' (Percent 2 a),
      Metric ''Failure Risk'' (Percent 2 p),
      if p < double_0_3 then Status SUCCESS ''System Healthy''
      else if p < double_0_7 then Status WARNING ''System at Risk''
      else Status ERROR ''System Critical''],
     Inr ())"
  unfolding system_health_def
  by (simp add: m a p ui_simps ex_bind_def percent_metric_number
      py_if_lt2_number [OF py_format_pct_number [OF p]]
      ui_emit_def ui_return_def)

lemma model_comparison_run:
  assumes m: "dict_get kvs ''metrics'' (JObj []) = JObj m"
    and a: "py_format_pct (dict_get m ''avg_confidence'' (JInt 0)) = Inr a"
    and p: "py_format_pct (dict_get kvs ''failure_probability'' (JInt 0)) = Inr p"
  shows "model_comparison (ok_body (JObj kvs)) =
    ([Markdown ''**Good Model**'',
      Metric ''Expected Confidence'' (Text ''High (>75%)''),
      Caption ''Stable performance'',
      Markdown ''**Bad Model**'',
      Metric ''Expected Confidence'' (Text ''Low (<60%)''),
      Caption ''May degrade faster'',
      Markdown ''**Current System Health**'',
      Metric ''Avg Confidence'' (Percent 2 a),
      Metric ''Failure Risk'' (Percent 2 p),
      if p < double_0_3 then Status SUCCESS ''System Healthy''
      else if p < double_0_7 then Status WARNING ''System at Risk''
      else Status ERROR ''System Critical''],
     Inr ())"
  unfolding model_comparison_def
  by (simp add: ok_body_def response_json_def system_health_run [OF m a p] ui_simps
      ui_emit_def ui_return_def)

subsection \<open>Evaluating a run\<close>

lemmas run_defs = model_health_risk_def ok_body_def response_json_def telemetry_branch_def
  fallback_error_branch_def fallback_except_branch_def degradation_line_def progress_arg_def
  percent_metric_def py_if_gt2_def py_gt_def py_num_def py_min_def ex_bind_def ui_bind_def
  ui_eval_def ui_emit_def ui_return_def ui_try_def dict_get_def risk_levels_def completes_def
  fits_double_def

lemmas sys_defs = model_comparison_def system_health_def system_levels_def py_if_lt2_def
  py_lt_def double_0_3_def double_0_7_def

section \<open>The claims\<close>

text \<open>
  Claim C1 says that whenever no usable report is available the risk level follows the
  confidence thresholds. A reply with a status other than 200 is such a case, and for it the
  block displays nothing: the \<^verbatim>\<open>if\<close> of line 218 has no \<^verbatim>\<open>else\<close>. The same prediction with a
  raised request shows HEALTHY, and the Model Comparison block does display its fallback for
  the same reply (lines 384-396).
\<close>

theorem no_fallback_for_http_error:
  "risk_levels (model_health_risk (JObj [(''confidence'', JFloat 0.9)])
     (Inr (Response 500 (Some (JObj [(''detail'', JStr ''Internal Server Error'')]))))) = [] \<and>
   fst (model_health_risk (JObj [(''confidence'', JFloat 0.9)])
     (Inr (Response 500 (Some (JObj [(''detail'', JStr ''Internal Server Error'')]))))) = [] \<and>
   risk_levels (model_health_risk (JObj [(''confidence'', JFloat 0.9)])
     (Inl RequestException)) = [HEALTHY] \<and>
   fst (model_comparison
     (Inr (Response 500 (Some (JObj [(''detail'', JStr ''Internal Server Error'')]))))) =
     [Markdown ''**Good Model**'', Metric ''Confidence'' (Text ''High''), Caption ''Stable'',
      Markdown ''**Bad Model**'', Metric ''Confidence'' (Text ''Low''), Caption ''Risky'']"
  by (simp add: run_defs model_comparison_def)










text \<open>
  Claim C5 says that with an aggregate report the system health is a function of the
  failure probability alone. With \<^verbatim>\<open>"metrics": null\<close> line 368 raises, the handler of line
  398 runs, and no system health is shown for a failure probability of 0.29.
\<close>

theorem system_health_counterexample:
  "system_levels (model_comparison (ok_body
     (JObj [(''failure_probability'', JFloat 0.29), (''metrics'', JNull)]))) = []"
  by (simp add: run_defs sys_defs)

text \<open>
  Claim C5, amended. When the aggregate report is available and its \<^verbatim>\<open>metrics\<close> field is
  absent or an object whose \<^verbatim>\<open>avg_confidence\<close> is absent or a number, the system health
  shown is decided by the failure probability \<open>p\<close> alone, compared as Python compares it,
  with the doubles written \<^verbatim>\<open>0.3\<close> and \<^verbatim>\<open>0.7\<close>: healthy if \<open>p < 0.3\<close>, at risk if \<open>p < 0.7\<close>,
  critical otherwise. \<open>model_comparison\<close> takes neither the prediction nor the display of
  the health block; the witness shows one report that is CRITICAL for the prediction and
  healthy for the system (0.29), one that is HEALTHY for the prediction and critical for the
  system (0.71), and the boundary double itself, which is at risk.
\<close>

theorem system_health_thresholds:
  assumes "dict_get kvs ''metrics'' (JObj []) = JObj m"
    and "is_number (dict_get m ''avg_confidence'' (JInt 0))"
    and "py_format_pct (dict_get kvs ''failure_probability'' (JInt 0)) = Inr p"
  shows "(p < double_0_3 \<longrightarrow>
            system_levels (model_comparison (ok_body (JObj kvs))) = [SYSTEM_HEALTHY]) \<and>
         (\<not> p < double_0_3 \<and> p < double_0_7 \<longrightarrow>
            system_levels (model_comparison (ok_body (JObj kvs))) = [AT_RISK]) \<and>
         (\<not> p < double_0_7 \<longrightarrow>
            system_levels (model_comparison (ok_body (JObj kvs))) = [SYSTEM_CRITICAL])"
proof -
  from assms(2) obtain a where a: "py_format_pct (dict_get m ''avg_confidence'' (JInt 0)) = Inr a"
    using is_numberD by blast
  show ?thesis
    by (auto simp: model_comparison_run [OF assms(1) a assms(3)] system_levels_def
        double_0_3_def double_0_7_def)
qed

theorem system_health_thresholds_witness:
  "system_levels (model_comparison (ok_body
     (JObj [(''risk'', JStr ''HIGH''), (''failure_probability'', JFloat 0.29)])))
     = [SYSTEM_HEALTHY] \<and>
   risk_levels (model_health_risk (JObj [(''confidence'', JFloat 0.9)]) (ok_body
     (JObj [(''risk'', JStr ''HIGH''), (''failure_probability'', JFloat 0.29)])))
     = [CRITICAL] \<and>
   system_levels (model_comparison (ok_body
     (JObj [(''risk'', JStr ''LOW''), (''failure_probability'', JFloat 0.71)])))
     = [SYSTEM_CRITICAL] \<and>
   risk_levels (model_health_risk (JObj [(''confidence'', JFloat 0.9)]) (ok_body
     (JObj [(''risk'', JStr ''LOW''), (''failure_probability'', JFloat 0.71)])))
     = [HEALTHY] \<and>
   system_levels (model_comparison (ok_body
     (JObj [(''failure_probability'', JFloat double_0_3),
            (''metrics'', JObj [(''avg_confidence'', JFloat 0.8)])])))
     = [AT_RISK] \<and>
   double_0_3 < 0.3 \<and> double_0_7 < 0.7"
  using system_health_thresholds
          [of "[(''risk'', JStr ''HIGH''), (''failure_probability'', JFloat 0.29)]" "[]" "0.29"]
        system_health_thresholds
          [of "[(''risk'', JStr ''LOW''), (''failure_probability'', JFloat 0.71)]" "[]" "0.71"]
        system_health_thresholds
          [of "[(''failure_probability'', JFloat double_0_3),
                (''metrics'', JObj [(''avg_confidence'', JFloat 0.8)])]"
              "[(''avg_confidence'', JFloat 0.8)]" "double_0_3"]
  by (simp add: run_defs is_number_def double_0_3_def double_0_7_def st_metric_scalar scalar_def)

text \<open>
  Claim C6. For every decoded report object that has the key \<^verbatim>\<open>error\<close>, whatever value
  is stored under it and for every prediction payload, the block runs the confidence
  fallback of lines 261-278 inside the \<^verbatim>\<open>try\<close>; the other fields of the report are not
  read. For every numeric confidence the only risk level shown is the one the thresholds
  give, and for a confidence in \<open>[0, 1]\<close> the display is exactly that of the fallback.
\<close>

theorem error_key_selects_fallback:
  assumes "map_of kvs ''error'' = Some v"
  shows "model_health_risk result (ok_body (JObj kvs)) =
           ui_try (fallback_error_branch result) (fallback_except_branch result) \<and>
         (has_confidence result c \<longrightarrow>
            set (risk_levels (model_health_risk result (ok_body (JObj kvs)))) =
              {if c > 0.75 then HEALTHY else if c > 0.5 then RISKY else CRITICAL}) \<and>
         (valid_confidence result c \<longrightarrow>
            model_health_risk result (ok_body (JObj kvs)) = fallback_error_branch result \<and>
            risk_levels (model_health_risk result (ok_body (JObj kvs))) =
              [if c > 0.75 then HEALTHY else if c > 0.5 then RISKY else CRITICAL])"
proof -
  have run: "model_health_risk result (ok_body (JObj kvs)) =
      ui_try (fallback_error_branch result) (fallback_except_branch result)"
    by (rule health_error_marked [OF py_in_dict_Some [OF assms]])
  have any: "set (risk_levels (model_health_risk result (ok_body (JObj kvs)))) =
      {if c > 0.75 then HEALTHY else if c > 0.5 then RISKY else CRITICAL}"
    if "has_confidence result c"
    using fallback_error_branch_calls [OF that] fallback_except_branch_calls [OF that]
    by (cases "fallback_error_branch result"; cases "snd (fallback_error_branch result)")
       (auto simp: run risk_levels_def ui_try_def statuses_append split: prod.splits)
  have valid: "model_health_risk result (ok_body (JObj kvs)) = fallback_error_branch result \<and>
      risk_levels (model_health_risk result (ok_body (JObj kvs))) =
        [if c > 0.75 then HEALTHY else if c > 0.5 then RISKY else CRITICAL]"
    if "valid_confidence result c"
    by (simp add: run fallback_error_branch_run [OF that] ui_try_done risk_levels_def)
  from run any valid show ?thesis by blast
qed

theorem error_key_selects_fallback_witness:
  "risk_levels (model_health_risk (JObj [(''confidence'', JFloat 0.9)])
      (ok_body (JObj [(''error'', JNull), (''risk'', JStr ''HIGH'')]))) = [HEALTHY] \<and>
   risk_levels (model_health_risk (JObj [(''confidence'', JFloat 0.9)])
      (ok_body (JObj [(''risk'', JStr ''HIGH''), (''error'', JStr '''')]))) = [HEALTHY] \<and>
   risk_levels (model_health_risk (JObj [(''confidence'', JFloat 0.4)])
      (ok_body (JObj [(''error'', JBool False)]))) = [CRITICAL] \<and>
   set (risk_levels (model_health_risk (JObj [(''confidence'', JFloat 1.7)])
      (ok_body (JObj [(''error'', JNull), (''risk'', JStr ''HIGH'')])))) = {HEALTHY}"
  using error_key_selects_fallback
          [of "[(''error'', JNull), (''risk'', JStr ''HIGH'')]" JNull
              "JObj [(''confidence'', JFloat 0.9)]" "0.9", THEN conjunct2, THEN conjunct2, THEN mp, THEN conjunct2]
        error_key_selects_fallback
          [of "[(''risk'', JStr ''HIGH''), (''error'', JStr [])]" "JStr []"
              "JObj [(''confidence'', JFloat 0.9)]" "0.9", THEN conjunct2, THEN conjunct2, THEN mp, THEN conjunct2]
        error_key_selects_fallback
          [of "[(''error'', JBool False)]" "JBool False"
              "JObj [(''confidence'', JFloat 0.4)]" "0.4", THEN conjunct2, THEN conjunct2, THEN mp, THEN conjunct2]
        error_key_selects_fallback
          [of "[(''error'', JNull), (''risk'', JStr ''HIGH'')]" JNull
              "JObj [(''confidence'', JFloat 1.7)]" "1.7", THEN conjunct2, THEN conjunct1]
  by (simp add: valid_confidence_def has_confidence_def)







text \<open>
  Claim C9. The progress value passed by the telemetry branch is capped by
  \<^verbatim>\<open>min(1.0, ...)\<close>: for every report and every prediction payload it never exceeds 1, also
  when the overall degradation or the confidence is greater than 1. The two confidence
  fallbacks pass the raw confidence to the progress bar, with no cap.
\<close>

theorem progress_clamp:
  "(\<forall>p \<in> set (progress_values (fst (telemetry_branch result risk_data))). p \<le> 1) \<and>
   (has_confidence result c \<longrightarrow>
      progress_values (fst (fallback_error_branch result)) = [c] \<and>
      progress_values (fst (fallback_except_branch result)) = [c])"
  by (simp add: telemetry_branch_progress_le_1 fallback_error_branch_calls
      fallback_except_branch_calls)

theorem progress_clamp_witness:
  "progress_values (fst (telemetry_branch (JObj [(''confidence'', JFloat 1.7)])
     (JObj [(''degradation'', JObj [(''overall_degradation'', JFloat 1.5)])]))) = [1] \<and>
   progress_values (fst (telemetry_branch (JObj [(''confidence'', JFloat 1.7)])
     (JObj []))) = [1] \<and>
   has_confidence (JObj [(''confidence'', JFloat 1.7)]) 1.7 \<and>
   progress_values (fst (fallback_error_branch (JObj [(''confidence'', JFloat 1.7)]))) = [1.7] \<and>
   progress_values (fst (fallback_except_branch (JObj [(''confidence'', JFloat 1.7)]))) = [1.7]"
  using progress_clamp [of "JObj [(''confidence'', JFloat 1.7)]"
          "JObj [(''degradation'', JObj [(''overall_degradation'', JFloat 1.5)])]" "1.7"]
  by (simp add: run_defs has_confidence_def)



end
